theory Spec2Isabelle
  imports Complex_Main "HOL-Library.Sublist" "HOL-Library.Word"
begin

section \<open>Values of the HTTP API\<close>

text \<open>
  The handlers of \<^verbatim>\<open>backend/main.py\<close> return either Python dict literals or pydantic
  models. A dict literal is an association list in the order the source writes its keys;
  its values are JSON values. Python floats are modelled as reals: of the timing value the
  theorems below state the sign only, which rounding does not change. Python strings are
  modelled by their UTF-8 bytes: an ASCII text occurs in a string exactly when its bytes
  occur in the bytes of the string.
\<close>

datatype json =
    JNull
  | JBool bool
  | JInt int
  | JFloat real
  | JStr string
  | JList "json list"
  | JDict "(string \<times> json) list"

type_synonym dict = "(string \<times> json) list"

type_synonym byte = "8 word"

text \<open>
  Exceptions are values. \<open>HTTPException\<close> is FastAPI's exception (a subclass of Python's
  \<open>Exception\<close>), \<open>KeyError\<close> is raised by a failed dict subscript, and \<open>LibraryError\<close>
  stands for whatever OpenCV or the detection model raise, with their message.
\<close>

datatype exn =
    HTTPException (status_code: nat) (detail: string)
  | KeyError int
  | LibraryError string

subsection \<open>The pydantic models\<close>

record Detection =
  class_name :: string
  confidence :: real
  bbox :: "real list"

record DetectionResponse =
  detections :: "Detection list"
  count :: int
  processing_time_ms :: real

record AICoachRequest =
  current_step :: string
  duration :: real
  motion_type :: string
  previous_attempts :: int

record SessionRequest =
  session_id :: string
  user_id :: string
  task :: string
  start_time :: string
  end_time :: string
  duration :: int
  steps :: "dict list"
  score :: int
  metrics :: dict
  feedback :: "dict list"

subsection \<open>The libraries the service calls\<close>

text \<open>
  The detection model and OpenCV are not part of the repository; the service only sees
  their results, so they are parameters of the handlers.
  A \<open>box\<close> holds what the loop reads from one raw detection: \<open>cls\<close> is
  \<^verbatim>\<open>int(box.cls[0])\<close>, \<open>conf\<close> is \<^verbatim>\<open>float(box.conf[0])\<close> and \<open>xyxy\<close> is
  \<^verbatim>\<open>box.xyxy[0].tolist()\<close>. A \<open>results\<close> value is one element of what the model call
  returns. \<open>predict m img\<close> is the call \<^verbatim>\<open>model(img, conf=0.5, verbose=False)\<close> and
  \<open>names m\<close> is the dict \<^verbatim>\<open>model.names\<close>.
\<close>

record box =
  cls :: int
  conf :: real
  xyxy :: "real list"

record results =
  boxes :: "box list"

record 'img YOLO =
  predict :: "'img \<Rightarrow> exn + results list"
  names :: "int \<rightharpoonup> string"

text \<open>
  \<open>imdecode lib contents\<close> is \<^verbatim>\<open>cv2.imdecode(np.frombuffer(contents, np.uint8),
  cv2.IMREAD_COLOR)\<close>: it raises, returns \<^verbatim>\<open>None\<close> (no image could be decoded) or
  returns an image. \<open>py_str lib e\<close> is Python's \<^verbatim>\<open>str(e)\<close>. \<open>unicode_lower lib s\<close>
  is what \<^verbatim>\<open>str.lower\<close> returns for a string \<open>s\<close> that has a non-ASCII character
  (Unicode's case mapping, which is Python's and not the repository's).
\<close>

record 'img library =
  imdecode :: "byte list \<Rightarrow> exn + 'img option"
  py_str :: "exn \<Rightarrow> string"
  unicode_lower :: "string \<Rightarrow> string"

subsection \<open>The process\<close>

text \<open>
  The process holds the global \<^verbatim>\<open>model\<close> (\<^verbatim>\<open>None\<close> when the dependencies are
  missing or loading failed) and the records written through \<^verbatim>\<open>logger\<close> while requests
  are served. A log record keeps the values the source formats into its message.
\<close>

datatype log_record =
    Detected nat real
  | Detection_error exn
  | Session string int

record 'img process =
  model :: "'img YOLO option"
  logger :: "log_record list"

text \<open>
  Python's truth value of the global \<^verbatim>\<open>model\<close>, as \<^verbatim>\<open>if not model\<close> and
  \<^verbatim>\<open>if model\<close> read it: \<^verbatim>\<open>None\<close> is false, and a model object is true, since its
  class defines neither \<^verbatim>\<open>__bool__\<close> nor \<^verbatim>\<open>__len__\<close>.
\<close>

definition truth_value :: "'img YOLO option \<Rightarrow> bool" where
  "truth_value m = (case m of None \<Rightarrow> False | Some _ \<Rightarrow> True)"

definition is_not_None :: "'a option \<Rightarrow> bool" where
  "is_not_None m = (\<not> Option.is_none m)"

section \<open>The handlers\<close>

subsection \<open>GET / and GET /health\<close>

definition root_handler :: "'img process \<Rightarrow> dict" where
  "root_handler p =
     [(''status'', JStr ''healthy''),
      (''service'', JStr ''Healthcare AR Training API''),
      (''version'', JStr ''1.0.0''),
      (''model_loaded'', JBool (is_not_None (model p))),
      (''endpoints'',
         JList [JStr ''/detect'', JStr ''/ai-coach'', JStr ''/sessions'', JStr ''/health''])]"

definition health_check :: "'img process \<Rightarrow> dict" where
  "health_check p =
     [(''status'', JStr ''healthy''),
      (''model_loaded'', JBool (is_not_None (model p))),
      (''model_type'', if truth_value (model p) then JStr ''YOLOv8n'' else JNull)]"

subsection \<open>The class filter of POST /detect\<close>

text \<open>
  \<open>str_lower lib s\<close> is \<^verbatim>\<open>s.lower()\<close>: on a string of ASCII characters it turns the
  letters A to Z into a to z and keeps every other character; on any other string it is
  the library's Unicode case mapping. \<open>str_in obj s\<close> is Python's \<^verbatim>\<open>obj in s\<close> on
  strings: \<open>obj\<close> occurs in \<open>s\<close> as a contiguous run.
\<close>

definition is_ascii :: "char \<Rightarrow> bool" where
  "is_ascii c = (\<not> digit7 c)"

definition lower_char :: "char \<Rightarrow> char" where
  "lower_char c =
     (case map_of (zip ''ABCDEFGHIJKLMNOPQRSTUVWXYZ'' ''abcdefghijklmnopqrstuvwxyz'') c of
        Some l \<Rightarrow> l
      | None \<Rightarrow> c)"

definition str_lower :: "'img library \<Rightarrow> string \<Rightarrow> string" where
  "str_lower lib s = (if list_all is_ascii s then map lower_char s else unicode_lower lib s)"

fun str_in :: "string \<Rightarrow> string \<Rightarrow> bool" where
  "str_in obj [] = (obj = [])"
| "str_in obj (c # s) = (prefix obj (c # s) \<or> str_in obj s)"

definition relevant_objects :: "string list" where
  "relevant_objects = [''bottle'', ''cup'', ''person'', ''hand'', ''book'']"

definition relevant :: "'img library \<Rightarrow> string \<Rightarrow> bool" where
  "relevant lib name = list_ex (\<lambda>obj. str_in obj (str_lower lib name)) relevant_objects"

subsection \<open>POST /detect\<close>

text \<open>
  The two nested loops over the model's results. \<open>acc\<close> is the list \<^verbatim>\<open>detections\<close>
  built so far; a class id missing from \<^verbatim>\<open>model.names\<close> raises \<open>KeyError\<close> and ends
  both loops.
\<close>

fun boxes_loop ::
  "'img library \<Rightarrow> 'img YOLO \<Rightarrow> box list \<Rightarrow> Detection list \<Rightarrow> exn + Detection list" where
  "boxes_loop lib m [] acc = Inr acc"
| "boxes_loop lib m (b # bs) acc =
     (case names m (cls b) of
        None \<Rightarrow> Inl (KeyError (cls b))
      | Some name \<Rightarrow>
          if relevant lib name
          then boxes_loop lib m bs
                 (acc @ [\<lparr>class_name = name, confidence = conf b, bbox = xyxy b\<rparr>])
          else boxes_loop lib m bs acc)"

fun results_loop ::
  "'img library \<Rightarrow> 'img YOLO \<Rightarrow> results list \<Rightarrow> Detection list
    \<Rightarrow> exn + Detection list" where
  "results_loop lib m [] acc = Inr acc"
| "results_loop lib m (r # rs) acc =
     (case boxes_loop lib m (boxes r) acc of
        Inl e \<Rightarrow> Inl e
      | Inr acc' \<Rightarrow> results_loop lib m rs acc')"

text \<open>
  Two notions to speak about the loops: a raw detection is \<open>retained\<close> when its class
  id has a name and the name passes the filter, and a \<open>Detection\<close> record
  \<open>represents\<close> a raw detection when it holds its class name, confidence and box.
\<close>

definition retained :: "'img library \<Rightarrow> 'img YOLO \<Rightarrow> box \<Rightarrow> bool" where
  "retained lib m b =
     (case names m (cls b) of None \<Rightarrow> False | Some name \<Rightarrow> relevant lib name)"

definition represents :: "'img YOLO \<Rightarrow> Detection \<Rightarrow> box \<Rightarrow> bool" where
  "represents m d b =
     (names m (cls b) = Some (class_name d) \<and> confidence d = conf b \<and> bbox d = xyxy b)"

text \<open>
  The body of the \<^verbatim>\<open>try\<close> block. \<open>t_start\<close> and \<open>t_end\<close> are the two readings of
  \<^verbatim>\<open>time.time()\<close>, the wall clock. The result is the exception that leaves the block,
  or the response together with the record logged just before it is returned.
\<close>

definition try_block ::
  "'img library \<Rightarrow> 'img YOLO \<Rightarrow> real \<Rightarrow> real \<Rightarrow> byte list
    \<Rightarrow> exn + (DetectionResponse \<times> log_record)" where
  "try_block lib m t_start t_end contents =
     (case imdecode lib contents of
        Inl e \<Rightarrow> Inl e
      | Inr None \<Rightarrow> Inl (HTTPException 400 ''Invalid image'')
      | Inr (Some img) \<Rightarrow>
          (case predict m img of
             Inl e \<Rightarrow> Inl e
           | Inr res \<Rightarrow>
               (case results_loop lib m res [] of
                  Inl e \<Rightarrow> Inl e
                | Inr ds \<Rightarrow>
                    let processing_time = (t_end - t_start) * 1000 in
                    Inr (\<lparr>detections = ds, count = int (length ds),
                          processing_time_ms = processing_time\<rparr>,
                         Detected (length ds) processing_time))))"

text \<open>
  The handler: the test \<^verbatim>\<open>if not model\<close> stands before the \<^verbatim>\<open>try\<close> and
  succeeds exactly for \<^verbatim>\<open>None\<close> (see \<open>truth_value\<close>), hence the case split; the clause
  \<^verbatim>\<open>except Exception as e\<close> catches every exception that leaves the block, logs it and
  raises \<^verbatim>\<open>HTTPException(status_code=500, detail=str(e))\<close>.
\<close>

definition detect_objects ::
  "'img library \<Rightarrow> 'img process \<Rightarrow> real \<Rightarrow> real \<Rightarrow> byte list
    \<Rightarrow> (exn + DetectionResponse) \<times> 'img process" where
  "detect_objects lib p t_start t_end contents =
     (case model p of
        None \<Rightarrow> (Inl (HTTPException 503 ''YOLO model not loaded''), p)
      | Some m \<Rightarrow>
          (case try_block lib m t_start t_end contents of
             Inl e \<Rightarrow>
               (Inl (HTTPException 500 (py_str lib e)),
                p\<lparr>logger := logger p @ [Detection_error e]\<rparr>)
           | Inr (response, entry) \<Rightarrow>
               (Inr response, p\<lparr>logger := logger p @ [entry]\<rparr>)))"

subsection \<open>POST /ai-coach\<close>

definition feedback_map :: "(string \<times> string) list" where
  "feedback_map =
     [(''hands_visible'', ''Great! Keep your hands clearly visible.''),
      (''wetting_motion'', ''Good wetting motion! Cover all surfaces.''),
      (''soap_application'', ''Excellent circular rubbing motion!''),
      (''interlace_fingers'', ''Nice! Make sure fingers are fully interlaced.''),
      (''back_of_hands'', ''Good job! Don't forget both backs.''),
      (''thumbs'', ''Great thumb cleaning! Rotate them well.''),
      (''rinse_motion'', ''Excellent rinsing technique!'')]"

definition generate_feedback :: "string \<Rightarrow> real \<Rightarrow> string \<Rightarrow> int \<Rightarrow> string" where
  "generate_feedback step dur motion attempts =
     (case map_of feedback_map step of
        Some sentence \<Rightarrow> sentence
      | None \<Rightarrow> ''Keep up the good work!'')"

definition ai_coach :: "AICoachRequest \<Rightarrow> dict" where
  "ai_coach request =
     (let fb = generate_feedback (current_step request) (AICoachRequest.duration request)
                 (motion_type request) (previous_attempts request)
      in [(''feedback'', JStr fb),
          (''source'', JStr ''rule_based''),
          (''step'', JStr (current_step request))])"

subsection \<open>POST /sessions and GET /analytics\<close>

definition save_session :: "'img process \<Rightarrow> SessionRequest \<Rightarrow> dict \<times> 'img process" where
  "save_session p session =
     ([(''status'', JStr ''success''),
       (''session_id'', JStr (session_id session)),
       (''message'', JStr ''Session saved'')],
      p\<lparr>logger := logger p @ [Session (session_id session) (score session)]\<rparr>)"

definition get_analytics :: dict where
  "get_analytics =
     [(''total_sessions'', JInt 0),
      (''average_score'', JInt 0),
      (''message'', JStr ''Analytics endpoint'')]"

subsection \<open>Serving a sequence of requests\<close>

text \<open>
  One request after the other on the same process. A detection request carries the two
  clock readings taken while it is handled and the bytes of the uploaded file.
\<close>

datatype request =
    GET_root
  | GET_health
  | POST_detect real real "byte list"
  | POST_ai_coach AICoachRequest
  | POST_sessions SessionRequest
  | GET_analytics

datatype response =
    Dict dict
  | Model DetectionResponse
  | Raised exn

fun handle :: "'img library \<Rightarrow> 'img process \<Rightarrow> request \<Rightarrow> response \<times> 'img process" where
  "handle lib p GET_root = (Dict (root_handler p), p)"
| "handle lib p GET_health = (Dict (health_check p), p)"
| "handle lib p (POST_detect t_start t_end contents) =
     (case detect_objects lib p t_start t_end contents of
        (Inl e, p') \<Rightarrow> (Raised e, p')
      | (Inr r, p') \<Rightarrow> (Model r, p'))"
| "handle lib p (POST_ai_coach request) = (Dict (ai_coach request), p)"
| "handle lib p (POST_sessions session) =
     (case save_session p session of (d, p') \<Rightarrow> (Dict d, p'))"
| "handle lib p GET_analytics = (Dict get_analytics, p)"

fun serve ::
  "'img library \<Rightarrow> 'img process \<Rightarrow> request list \<Rightarrow> response list \<times> 'img process" where
  "serve lib p [] = ([], p)"
| "serve lib p (rq # rqs) =
     (case handle lib p rq of
        (rs, p') \<Rightarrow> (case serve lib p' rqs of (rss, p'') \<Rightarrow> (rs # rss, p'')))"

section \<open>A concrete library, model and process\<close>

text \<open>
  Stand-ins on which the theorems below are evaluated, used at three uploads only: the
  empty buffer, on which the decoder raises; \<open>demo_ppm\<close>, a binary PPM file of one red
  pixel, which it decodes to one row of one pixel in blue-green-red order; and
  \<open>demo_garbage\<close>, the four bytes of \<^verbatim>\<open>nope\<close>, for which it returns \<^verbatim>\<open>None\<close>. Of all
  image formats the stand-in knows the binary PPM of one pixel only. Of Unicode's case
  mapping it knows the Kelvin sign (U+212A, in UTF-8 the bytes E2 84 AA), whose lower
  case is the letter k. The model knows eight classes and returns the same four boxes,
  in two results, for every image.
\<close>

type_synonym image = "(byte \<times> byte \<times> byte) list list"

fun str_of_nat :: "nat \<Rightarrow> string" where
  "str_of_nat n =
     (if n < 10 then [''0123456789'' ! n]
      else str_of_nat (n div 10) @ [''0123456789'' ! (n mod 10)])"

declare str_of_nat.simps [simp del]

definition demo_str :: "exn \<Rightarrow> string" where
  "demo_str e =
     (case e of
        HTTPException code msg \<Rightarrow> str_of_nat code @ '': '' @ msg
      | KeyError k \<Rightarrow> (if k < 0 then ''-'' else []) @ str_of_nat (nat \<bar>k\<bar>)
      | LibraryError msg \<Rightarrow> msg)"

text \<open>The header of a binary PPM file of width 1, height 1 and maximal value 255.\<close>

definition ppm_header :: "byte list" where
  "ppm_header = [0x50, 0x36, 0x0A, 0x31, 0x20, 0x31, 0x0A, 0x32, 0x35, 0x35, 0x0A]"

definition demo_imdecode :: "byte list \<Rightarrow> exn + image option" where
  "demo_imdecode contents =
     (if contents = [] then Inl (LibraryError ''(-215:Assertion failed) !buf.empty()'')
      else if take 11 contents = ppm_header \<and> length contents = 14
      then Inr (Some [[(contents ! 13, contents ! 12, contents ! 11)]])
      else Inr None)"

fun demo_unicode_lower :: "string \<Rightarrow> string" where
  "demo_unicode_lower (c1 # c2 # c3 # s) =
     (if [c1, c2, c3] = [CHR 0xE2, CHR 0x84, CHR 0xAA] then CHR ''k'' # demo_unicode_lower s
      else lower_char c1 # demo_unicode_lower (c2 # c3 # s))"
| "demo_unicode_lower (c # s) = lower_char c # demo_unicode_lower s"
| "demo_unicode_lower [] = []"

definition demo_library :: "image library" where
  "demo_library =
     \<lparr>imdecode = demo_imdecode, py_str = demo_str, unicode_lower = demo_unicode_lower\<rparr>"

definition demo_names :: "int \<rightharpoonup> string" where
  "demo_names =
     map_of [(0, ''person''), (2, ''car''), (26, ''handbag''), (39, ''bottle''),
             (41, ''cup''), (67, ''cell phone''), (73, ''book''), (80, ''Soap Bottle'')]"

definition demo_results :: "results list" where
  "demo_results =
     [\<lparr>boxes = [\<lparr>cls = 2, conf = 0.9, xyxy = [0, 0, 50, 40]\<rparr>,
                \<lparr>cls = 39, conf = 0.6, xyxy = [10, 10, 20, 30]\<rparr>]\<rparr>,
      \<lparr>boxes = [\<lparr>cls = 0, conf = 0.8, xyxy = [5, 0, 60, 90]\<rparr>,
                \<lparr>cls = 67, conf = 0.7, xyxy = [1, 2, 3, 4]\<rparr>]\<rparr>]"

text \<open>What the loops keep of \<open>demo_results\<close>: the bottle and the person, in that order.\<close>

definition demo_detections :: "Detection list" where
  "demo_detections =
     [\<lparr>class_name = ''bottle'', confidence = 0.6, bbox = [10, 10, 20, 30]\<rparr>,
      \<lparr>class_name = ''person'', confidence = 0.8, bbox = [5, 0, 60, 90]\<rparr>]"

definition demo_model :: "image YOLO" where
  "demo_model = \<lparr>predict = (\<lambda>img. Inr demo_results), names = demo_names\<rparr>"

definition demo_process :: "image process" where
  "demo_process = \<lparr>model = Some demo_model, logger = []\<rparr>"

definition degraded_process :: "image process" where
  "degraded_process = \<lparr>model = None, logger = []\<rparr>"

definition demo_ppm :: "byte list" where
  "demo_ppm = ppm_header @ [0xFF, 0x00, 0x00]"

definition demo_image :: image where
  "demo_image = [[(0x00, 0x00, 0xFF)]]"

definition demo_garbage :: "byte list" where
  "demo_garbage = [0x6E, 0x6F, 0x70, 0x65]"

definition demo_session :: SessionRequest where
  "demo_session =
     \<lparr>session_id = ''s-42'', user_id = ''u-7'', task = ''handwashing'',
      start_time = ''2024-05-01T10:00:09Z'', end_time = ''2024-05-01T10:00:00Z'',
      duration = - 9, steps = [], score = - 250, metrics = [], feedback = []\<rparr>"

section \<open>The feedback table\<close>

lemma feedback_map_keys:
  "map_of feedback_map step = None \<longleftrightarrow>
     step \<notin> {''hands_visible'', ''wetting_motion'', ''soap_application'',
             ''interlace_fingers'', ''back_of_hands'', ''thumbs'', ''rinse_motion''}"
  by (simp add: feedback_map_def)

lemma generate_feedback_fallback:
  "map_of feedback_map step = None \<Longrightarrow>
     generate_feedback step dur motion attempts = ''Keep up the good work!''"
  by (simp add: generate_feedback_def)

text \<open>
  Claim C4. \<open>generate_feedback\<close> is a function of its arguments alone (it reads and
  writes no state and is defined on every string): it maps each of the seven step
  identifiers to the sentence of the table, and every other string to the fallback
  sentence \<^verbatim>\<open>Keep up the good work!\<close>.
\<close>

theorem generate_feedback_table:
  "generate_feedback ''hands_visible'' dur motion attempts =
     ''Great! Keep your hands clearly visible.'' \<and>
   generate_feedback ''wetting_motion'' dur motion attempts =
     ''Good wetting motion! Cover all surfaces.'' \<and>
   generate_feedback ''soap_application'' dur motion attempts =
     ''Excellent circular rubbing motion!'' \<and>
   generate_feedback ''interlace_fingers'' dur motion attempts =
     ''Nice! Make sure fingers are fully interlaced.'' \<and>
   generate_feedback ''back_of_hands'' dur motion attempts =
     ''Good job! Don't forget both backs.'' \<and>
   generate_feedback ''thumbs'' dur motion attempts =
     ''Great thumb cleaning! Rotate them well.'' \<and>
   generate_feedback ''rinse_motion'' dur motion attempts =
     ''Excellent rinsing technique!'' \<and>
   (step \<notin> {''hands_visible'', ''wetting_motion'', ''soap_application'',
             ''interlace_fingers'', ''back_of_hands'', ''thumbs'', ''rinse_motion''} \<longrightarrow>
     generate_feedback step dur motion attempts = ''Keep up the good work!'')"
proof -
  have fallback: "generate_feedback step dur motion attempts = ''Keep up the good work!''"
    if "step \<notin> {''hands_visible'', ''wetting_motion'', ''soap_application'',
             ''interlace_fingers'', ''back_of_hands'', ''thumbs'', ''rinse_motion''}"
    by (rule generate_feedback_fallback [OF feedback_map_keys [THEN iffD2, OF that]])
  have table:
    "generate_feedback ''hands_visible'' dur motion attempts =
       ''Great! Keep your hands clearly visible.''"
    "generate_feedback ''wetting_motion'' dur motion attempts =
       ''Good wetting motion! Cover all surfaces.''"
    "generate_feedback ''soap_application'' dur motion attempts =
       ''Excellent circular rubbing motion!''"
    "generate_feedback ''interlace_fingers'' dur motion attempts =
       ''Nice! Make sure fingers are fully interlaced.''"
    "generate_feedback ''back_of_hands'' dur motion attempts =
       ''Good job! Don't forget both backs.''"
    "generate_feedback ''thumbs'' dur motion attempts =
       ''Great thumb cleaning! Rotate them well.''"
    "generate_feedback ''rinse_motion'' dur motion attempts =
       ''Excellent rinsing technique!''"
    by (simp_all add: generate_feedback_def feedback_map_def)
  show ?thesis
    by (intro conjI impI; (rule table | erule fallback))
qed

theorem generate_feedback_table_witness:
  "''unknown_step_xyz'' \<notin> {''hands_visible'', ''wetting_motion'', ''soap_application'',
      ''interlace_fingers'', ''back_of_hands'', ''thumbs'', ''rinse_motion''} \<and>
   generate_feedback ''unknown_step_xyz'' 12.5 ''circular'' 3 = ''Keep up the good work!'' \<and>
   generate_feedback ''rinse_motion'' 12.5 ''circular'' 3 = ''Excellent rinsing technique!''"
  using generate_feedback_table [of "12.5" "''circular''" 3 "''unknown_step_xyz''"]
  by simp

section \<open>POST /ai-coach\<close>

text \<open>
  Claim C6. For every coach request, \<open>ai_coach\<close> returns exactly the dict with
  \<open>feedback\<close> the table's sentence for \<open>current_step\<close>, \<open>source\<close> the string
  \<^verbatim>\<open>rule_based\<close> and \<open>step\<close> the \<open>current_step\<close> received. The sentence is the one
  \<open>generate_feedback\<close> gives for \<open>current_step\<close> with any duration, motion type and
  number of attempts, so replacing these three fields of the request leaves the response
  unchanged. The step \<^verbatim>\<open>thumbs\<close> yields the thumbs sentence and
  \<^verbatim>\<open>unknown_step_xyz\<close> the fallback sentence.
\<close>

theorem ai_coach_response:
  "ai_coach request =
     [(''feedback'', JStr (generate_feedback (current_step request) dur motion attempts)),
      (''source'', JStr ''rule_based''),
      (''step'', JStr (current_step request))] \<and>
   ai_coach (request\<lparr>AICoachRequest.duration := dur, motion_type := motion,
                     previous_attempts := attempts\<rparr>) = ai_coach request \<and>
   ai_coach \<lparr>current_step = ''thumbs'', duration = dur, motion_type = motion,
             previous_attempts = attempts\<rparr> =
     [(''feedback'', JStr ''Great thumb cleaning! Rotate them well.''),
      (''source'', JStr ''rule_based''),
      (''step'', JStr ''thumbs'')] \<and>
   ai_coach \<lparr>current_step = ''unknown_step_xyz'', duration = dur, motion_type = motion,
             previous_attempts = attempts\<rparr> =
     [(''feedback'', JStr ''Keep up the good work!''),
      (''source'', JStr ''rule_based''),
      (''step'', JStr ''unknown_step_xyz'')]"
proof -
  have thumbs: "generate_feedback ''thumbs'' dur motion attempts =
      ''Great thumb cleaning! Rotate them well.''"
    by (simp add: generate_feedback_def feedback_map_def)
  have unknown: "generate_feedback ''unknown_step_xyz'' dur motion attempts =
      ''Keep up the good work!''"
    by (simp add: generate_feedback_def feedback_map_def)
  have shape: "ai_coach rq =
     [(''feedback'', JStr (generate_feedback (current_step rq) dur motion attempts)),
      (''source'', JStr ''rule_based''),
      (''step'', JStr (current_step rq))]" for rq
    by (simp add: ai_coach_def Let_def generate_feedback_def)
  show ?thesis
    by (simp add: shape thumbs unknown)
qed

section \<open>POST /sessions and GET /analytics\<close>

text \<open>
  Claim C7. For every session record, whatever its score, its two timestamps and its
  list of steps, \<open>save_session\<close> returns the dict with \<open>status\<close> \<^verbatim>\<open>success\<close>, the
  \<open>session_id\<close> it received and \<open>message\<close> \<^verbatim>\<open>Session saved\<close>; it logs the identifier
  and the score and raises nothing. The record \<open>demo_session\<close>, with a negative score,
  an end before its start and no steps, is acknowledged like any other.
\<close>

theorem save_session_echo:
  "save_session p session =
     ([(''status'', JStr ''success''),
       (''session_id'', JStr (session_id session)),
       (''message'', JStr ''Session saved'')],
      p\<lparr>logger := logger p @ [Session (session_id session) (score session)]\<rparr>) \<and>
   fst (handle lib p (POST_sessions session)) =
     Dict [(''status'', JStr ''success''),
           (''session_id'', JStr (session_id session)),
           (''message'', JStr ''Session saved'')] \<and>
   fst (save_session p demo_session) =
     [(''status'', JStr ''success''),
      (''session_id'', JStr ''s-42''),
      (''message'', JStr ''Session saved'')]"
  by (simp add: save_session_def demo_session_def)

lemma serve_append:
  "serve lib p (rqs @ [rq]) =
     (fst (serve lib p rqs) @ [fst (handle lib (snd (serve lib p rqs)) rq)],
      snd (handle lib (snd (serve lib p rqs)) rq))"
  by (induction rqs arbitrary: p) (simp_all split: prod.splits)

text \<open>
  Claim C8. \<open>get_analytics\<close> is the constant dict with \<open>total_sessions\<close> 0,
  \<open>average_score\<close> 0 and a message; the analytics request is answered with it in every
  state of the process, and in particular after any sequence of earlier requests,
  however many sessions they submitted.
\<close>

theorem analytics_constant:
  "get_analytics =
     [(''total_sessions'', JInt 0), (''average_score'', JInt 0),
      (''message'', JStr ''Analytics endpoint'')] \<and>
   fst (handle lib p GET_analytics) =
     Dict [(''total_sessions'', JInt 0), (''average_score'', JInt 0),
           (''message'', JStr ''Analytics endpoint'')] \<and>
   fst (serve lib p (requests @ [GET_analytics])) =
     fst (serve lib p requests) @
       [Dict [(''total_sessions'', JInt 0), (''average_score'', JInt 0),
              (''message'', JStr ''Analytics endpoint'')]]"
  by (simp add: serve_append get_analytics_def)

section \<open>GET / and GET /health\<close>

text \<open>
  Claim C10. Both \<open>root_handler\<close> and \<open>health_check\<close> report the status
  \<^verbatim>\<open>healthy\<close> whether or not a model is loaded; \<open>model_loaded\<close> tells whether the model
  handle is present, and \<open>model_type\<close> of \<open>health_check\<close> is \<^verbatim>\<open>YOLOv8n\<close> when the handle
  is present and null when it is absent. The two dicts are given in full: apart from
  \<open>model_loaded\<close> and \<open>model_type\<close> nothing in them depends on the model handle.
\<close>

theorem health_reports:
  "map_of (root_handler p) ''status'' = Some (JStr ''healthy'') \<and>
   map_of (health_check p) ''status'' = Some (JStr ''healthy'') \<and>
   map_of (root_handler p) ''model_loaded'' = Some (JBool (model p \<noteq> None)) \<and>
   map_of (health_check p) ''model_loaded'' = Some (JBool (model p \<noteq> None)) \<and>
   map_of (health_check p) ''model_type'' =
     Some (if model p \<noteq> None then JStr ''YOLOv8n'' else JNull) \<and>
   root_handler p =
     [(''status'', JStr ''healthy''),
      (''service'', JStr ''Healthcare AR Training API''),
      (''version'', JStr ''1.0.0''),
      (''model_loaded'', JBool (model p \<noteq> None)),
      (''endpoints'',
         JList [JStr ''/detect'', JStr ''/ai-coach'', JStr ''/sessions'', JStr ''/health''])] \<and>
   health_check p =
     [(''status'', JStr ''healthy''),
      (''model_loaded'', JBool (model p \<noteq> None)),
      (''model_type'', if model p \<noteq> None then JStr ''YOLOv8n'' else JNull)]"
  by (cases "model p")
    (simp_all add: root_handler_def health_check_def is_not_None_def truth_value_def)

section \<open>The class filter\<close>

lemma str_in_sublist: "str_in obj s = sublist obj s"
  by (induction s) (simp_all add: sublist_Cons_right)

lemma relevant_iff:
  "relevant lib name \<longleftrightarrow>
     (\<exists>obj \<in> {''bottle'', ''cup'', ''person'', ''hand'', ''book''}.
        sublist obj (str_lower lib name))"
  by (simp add: relevant_def relevant_objects_def str_in_sublist)

lemma str_lower_examples:
  "str_lower lib ''PERSON'' = ''person''"
  "str_lower lib ''Water Bottle'' = ''water bottle''"
  "str_lower lib ''Soap Bottle'' = ''soap bottle''"
  by (simp_all add: str_lower_def is_ascii_def lower_char_def)

lemma relevant_examples:
  "relevant lib ''bottle''" "\<not> relevant lib ''car''" "relevant lib ''handbag''"
  "relevant lib ''PERSON''" "relevant lib ''Water Bottle''" "\<not> relevant lib ''CAR''"
  "\<not> relevant lib ''cell phone''" "relevant lib ''Soap Bottle''"
  by (simp_all add: relevant_def relevant_objects_def str_lower_def is_ascii_def
      lower_char_def)

text \<open>
  A name with a non-ASCII character is lowered by the library: the text BOO followed by
  the Kelvin sign is not ASCII, its lower case is \<^verbatim>\<open>book\<close>, and it passes the filter.
\<close>

lemma relevant_kelvin:
  "str_lower demo_library (''BOO'' @ [CHR 0xE2, CHR 0x84, CHR 0xAA]) = ''book''"
  "relevant demo_library (''BOO'' @ [CHR 0xE2, CHR 0x84, CHR 0xAA])"
  by (simp_all add: relevant_def relevant_objects_def str_lower_def is_ascii_def
      lower_char_def demo_library_def)

text \<open>
  Claim C3. A class name passes the filter if and only if one of \<^verbatim>\<open>bottle\<close>,
  \<^verbatim>\<open>cup\<close>, \<^verbatim>\<open>person\<close>, \<^verbatim>\<open>hand\<close>, \<^verbatim>\<open>book\<close> occurs in its lowercased form as a
  contiguous substring (\<open>sublist\<close>); the loop appends a Detection for a raw detection
  whose class id has a name exactly when the name passes, and leaves the list as it is
  otherwise. \<^verbatim>\<open>bottle\<close> passes, \<^verbatim>\<open>car\<close> does not, and \<^verbatim>\<open>handbag\<close> passes through
  \<^verbatim>\<open>hand\<close>. The name is lowered before the test and the substring may stand anywhere:
  \<^verbatim>\<open>PERSON\<close> lowers to \<^verbatim>\<open>person\<close> and passes, \<^verbatim>\<open>Water Bottle\<close> lowers to
  \<^verbatim>\<open>water bottle\<close> and passes, and \<^verbatim>\<open>CAR\<close> does not pass.
\<close>

theorem class_filter_substring:
  "(relevant lib name \<longleftrightarrow>
      (\<exists>obj \<in> {''bottle'', ''cup'', ''person'', ''hand'', ''book''}.
         sublist obj (str_lower lib name))) \<and>
   (names m (cls b) = Some name \<longrightarrow>
      boxes_loop lib m [b] acc =
        Inr (if \<exists>obj \<in> {''bottle'', ''cup'', ''person'', ''hand'', ''book''}.
                  sublist obj (str_lower lib name)
             then acc @ [\<lparr>class_name = name, confidence = conf b, bbox = xyxy b\<rparr>]
             else acc)) \<and>
   relevant lib ''bottle'' \<and> \<not> relevant lib ''car'' \<and> relevant lib ''handbag'' \<and>
   str_lower lib ''PERSON'' = ''person'' \<and> relevant lib ''PERSON'' \<and>
   str_lower lib ''Water Bottle'' = ''water bottle'' \<and> relevant lib ''Water Bottle'' \<and>
   \<not> relevant lib ''CAR''"
proof -
  have loop: "boxes_loop lib m [b] acc =
        Inr (if \<exists>obj \<in> {''bottle'', ''cup'', ''person'', ''hand'', ''book''}.
                  sublist obj (str_lower lib name)
             then acc @ [\<lparr>class_name = name, confidence = conf b, bbox = xyxy b\<rparr>]
             else acc)"
    if "names m (cls b) = Some name"
    using that relevant_iff [of lib name] by (cases "relevant lib name") simp_all
  show ?thesis
    by (intro conjI impI;
        (erule loop | rule relevant_iff relevant_examples str_lower_examples))
qed

theorem class_filter_substring_witness:
  "names demo_model (cls \<lparr>cls = 80, conf = 0.75, xyxy = [1, 2, 3, 4]\<rparr>) = Some ''Soap Bottle'' \<and>
   str_lower demo_library ''Soap Bottle'' = ''soap bottle'' \<and>
   sublist ''bottle'' ''soap bottle'' \<and>
   \<not> sublist ''bottle'' ''Soap Bottle'' \<and>
   boxes_loop demo_library demo_model [\<lparr>cls = 80, conf = 0.75, xyxy = [1, 2, 3, 4]\<rparr>] [] =
     Inr [\<lparr>class_name = ''Soap Bottle'', confidence = 0.75, bbox = [1, 2, 3, 4]\<rparr>]"
proof -
  let ?b = "\<lparr>cls = 80, conf = 0.75, xyxy = [1, 2, 3, 4]\<rparr>"
  have n: "names demo_model (cls ?b) = Some ''Soap Bottle''"
    by (simp add: demo_model_def demo_names_def)
  have l: "str_lower demo_library ''Soap Bottle'' = ''soap bottle''"
    by (rule str_lower_examples)
  have s: "sublist ''bottle'' ''soap bottle''" "\<not> sublist ''bottle'' ''Soap Bottle''"
    by (simp_all add: sublist_Cons_right)
  have "boxes_loop demo_library demo_model [?b] [] =
     Inr [\<lparr>class_name = ''Soap Bottle'', confidence = 0.75, bbox = [1, 2, 3, 4]\<rparr>]"
    using class_filter_substring [of demo_library "''Soap Bottle''" demo_model ?b "[]"] n
    by (simp add: l s)
  with n l s show ?thesis
    by simp
qed

section \<open>POST /detect\<close>

subsection \<open>What a successful run has done\<close>

lemma boxes_loop_Inr:
  "boxes_loop lib m bs acc = Inr ds \<Longrightarrow>
     \<exists>new. ds = acc @ new \<and> list_all2 (represents m) new (filter (retained lib m) bs)"
proof (induction bs arbitrary: acc)
  case Nil
  then show ?case by simp
next
  case (Cons b bs)
  show ?case
  proof (cases "names m (cls b)")
    case None
    with Cons.prems show ?thesis by simp
  next
    case (Some name)
    show ?thesis
    proof (cases "relevant lib name")
      case True
      let ?d = "\<lparr>class_name = name, confidence = conf b, bbox = xyxy b\<rparr>"
      from Cons.prems Some True have "boxes_loop lib m bs (acc @ [?d]) = Inr ds" by simp
      from Cons.IH [OF this] obtain new where
        new: "ds = (acc @ [?d]) @ new" "list_all2 (represents m) new (filter (retained lib m) bs)"
        by blast
      have "represents m ?d b" using Some by (simp add: represents_def)
      moreover have "retained lib m b" using Some True by (simp add: retained_def)
      ultimately show ?thesis using new
        by (intro exI [of _ "?d # new"]) simp
    next
      case False
      from Cons.prems Some False have "boxes_loop lib m bs acc = Inr ds" by simp
      moreover have "\<not> retained lib m b" using Some False by (simp add: retained_def)
      ultimately show ?thesis using Cons.IH [of acc]
        by simp
    qed
  qed
qed

lemma results_loop_Inr:
  "results_loop lib m rs acc = Inr ds \<Longrightarrow>
     \<exists>new. ds = acc @ new \<and>
       list_all2 (represents m) new (filter (retained lib m) (concat (map boxes rs)))"
proof (induction rs arbitrary: acc)
  case Nil
  then show ?case by simp
next
  case (Cons r rs)
  from Cons.prems obtain acc' where
    first: "boxes_loop lib m (boxes r) acc = Inr acc'" and rest: "results_loop lib m rs acc' = Inr ds"
    by (auto split: sum.splits)
  from boxes_loop_Inr [OF first] obtain n1 where
    n1: "acc' = acc @ n1" "list_all2 (represents m) n1 (filter (retained lib m) (boxes r))"
    by blast
  from Cons.IH [OF rest] obtain n2 where
    n2: "ds = acc' @ n2"
      "list_all2 (represents m) n2 (filter (retained lib m) (concat (map boxes rs)))"
    by blast
  from n1 n2 show ?case
    by (intro exI [of _ "n1 @ n2"]) (simp add: list_all2_appendI)
qed

lemma try_block_Inr:
  "try_block lib m t_start t_end contents = Inr (r, l) \<Longrightarrow>
     \<exists>img res ds. imdecode lib contents = Inr (Some img) \<and> predict m img = Inr res \<and>
       results_loop lib m res [] = Inr ds \<and>
       r = \<lparr>detections = ds, count = int (length ds),
            processing_time_ms = (t_end - t_start) * 1000\<rparr> \<and>
       l = Detected (length ds) ((t_end - t_start) * 1000)"
  by (auto simp: try_block_def Let_def split: sum.splits option.splits)

lemma detect_objects_Inr:
  "fst (detect_objects lib p t_start t_end contents) = Inr r \<Longrightarrow>
     \<exists>m l. model p = Some m \<and> try_block lib m t_start t_end contents = Inr (r, l)"
  by (auto simp: detect_objects_def split: option.splits sum.splits prod.splits)


subsection \<open>The handler on the concrete library and model\<close>

lemma demo_str_400: "demo_str (HTTPException 400 msg) = ''400: '' @ msg"
  by (simp add: demo_str_def str_of_nat.simps [of 400] str_of_nat.simps [of 40]
      str_of_nat.simps [of 4])

lemma demo_loop:
  "results_loop demo_library demo_model demo_results [] = Inr demo_detections"
  by (simp add: demo_results_def demo_model_def demo_names_def demo_detections_def
      relevant_def relevant_objects_def str_lower_def is_ascii_def lower_char_def)

lemma demo_decode: "imdecode demo_library demo_ppm = Inr (Some demo_image)"
  by (simp add: demo_library_def demo_imdecode_def demo_ppm_def ppm_header_def
      demo_image_def)

lemma demo_garbage_None: "imdecode demo_library demo_garbage = Inr None"
  by (simp add: demo_library_def demo_imdecode_def demo_garbage_def ppm_header_def)

lemma demo_empty_raises:
  "imdecode demo_library [] = Inl (LibraryError ''(-215:Assertion failed) !buf.empty()'')"
  by (simp add: demo_library_def demo_imdecode_def)

lemma demo_predict: "predict demo_model img = Inr demo_results"
  by (simp add: demo_model_def)

lemma demo_detect:
  "fst (detect_objects demo_library demo_process t_start t_end demo_ppm) =
     Inr \<lparr>detections = demo_detections, count = 2,
          processing_time_ms = (t_end - t_start) * 1000\<rparr>"
proof -
  have "length demo_detections = 2"
    by (simp add: demo_detections_def)
  then have "try_block demo_library demo_model t_start t_end demo_ppm =
     Inr (\<lparr>detections = demo_detections, count = 2,
           processing_time_ms = (t_end - t_start) * 1000\<rparr>,
          Detected 2 ((t_end - t_start) * 1000))"
    by (simp add: try_block_def demo_decode demo_predict demo_loop Let_def)
  then show ?thesis
    by (simp add: detect_objects_def demo_process_def)
qed

subsection \<open>Failures\<close>

lemma detect_objects_decode_raises:
  "model p = Some m \<Longrightarrow> imdecode lib contents = Inl e \<Longrightarrow>
     fst (detect_objects lib p t_start t_end contents) = Inl (HTTPException 500 (py_str lib e))"
  by (simp add: detect_objects_def try_block_def)

lemma detect_objects_status:
  "fst (detect_objects lib p t_start t_end contents) = Inl e \<Longrightarrow>
     \<exists>msg. e = HTTPException 503 msg \<or> e = HTTPException 500 msg"
  by (auto simp: detect_objects_def split: option.splits sum.splits prod.splits)

text \<open>
  Claim C1. The claim asks for a 400 when the model is loaded and the buffer cannot be
  decoded. The handler raises \<^verbatim>\<open>HTTPException(status_code=400)\<close> inside its
  \<^verbatim>\<open>try\<close> block, where \<^verbatim>\<open>except Exception\<close> catches it: what leaves the handler is
  a 500 whose detail is the text of the caught 400, and the 400 is logged as a detection
  error. No response and no detection list is returned. (By \<open>detect_objects_status\<close>
  the handler raises no status other than 503 and 500.)
\<close>

theorem detect_objects_invalid_image_500:
  "model p = Some m \<Longrightarrow> imdecode lib contents = Inr None \<Longrightarrow>
     detect_objects lib p t_start t_end contents =
       (Inl (HTTPException 500 (py_str lib (HTTPException 400 ''Invalid image''))),
        p\<lparr>logger := logger p @ [Detection_error (HTTPException 400 ''Invalid image'')]\<rparr>)"
  by (simp add: detect_objects_def try_block_def)

theorem detect_objects_invalid_image_500_witness:
  "detect_objects demo_library demo_process 0 1 demo_garbage =
     (Inl (HTTPException 500 ''400: Invalid image''),
      demo_process\<lparr>logger := [Detection_error (HTTPException 400 ''Invalid image'')]\<rparr>)"
proof -
  have m: "model demo_process = Some demo_model"
    by (simp add: demo_process_def)
  have s: "py_str demo_library = demo_str"
    by (simp add: demo_library_def)
  have l: "logger demo_process = []"
    by (simp add: demo_process_def)
  show ?thesis
    using detect_objects_invalid_image_500 [OF m demo_garbage_None, of 0 1]
    by (simp add: s l demo_str_400)
qed

text \<open>
  Claim C2. When the model handle is absent, \<open>detect_objects\<close> raises the 503
  \<^verbatim>\<open>YOLO model not loaded\<close> for every upload, every decoder and every pair of clock
  readings, and leaves the process as it was (nothing is decoded, inferred or logged),
  while \<open>health_check\<close> returns its dict with \<open>model_loaded\<close> false.
\<close>

theorem detect_objects_model_unavailable:
  "model p = None \<Longrightarrow>
     detect_objects lib p t_start t_end contents =
       (Inl (HTTPException 503 ''YOLO model not loaded''), p) \<and>
     health_check p =
       [(''status'', JStr ''healthy''), (''model_loaded'', JBool False),
        (''model_type'', JNull)]"
  by (simp add: detect_objects_def health_check_def is_not_None_def truth_value_def)

theorem detect_objects_model_unavailable_witness:
  "detect_objects demo_library degraded_process 0 1 demo_ppm =
     (Inl (HTTPException 503 ''YOLO model not loaded''), degraded_process) \<and>
   health_check degraded_process =
     [(''status'', JStr ''healthy''), (''model_loaded'', JBool False),
      (''model_type'', JNull)]"
proof -
  have "model degraded_process = None"
    by (simp add: degraded_process_def)
  from detect_objects_model_unavailable [OF this] show ?thesis
    by blast
qed

subsection \<open>Successful responses\<close>

text \<open>
  Claim C5, amended. In every successful response \<open>count\<close> is the length of
  \<open>detections\<close>, whatever the image and whatever the model returns, and
  \<open>processing_time_ms\<close> is non-negative whenever the second reading of the wall clock is
  not earlier than the first. (\<^verbatim>\<open>time.time()\<close> is not monotonic: when the system clock
  is set back between the two readings the value is negative, as the evaluation after
  the witness shows.)
\<close>

theorem detection_response_invariants:
  "fst (detect_objects lib p t_start t_end contents) = Inr r \<Longrightarrow>
     count r = int (length (detections r)) \<and>
     (t_start \<le> t_end \<longrightarrow> 0 \<le> processing_time_ms r)"
proof -
  assume "fst (detect_objects lib p t_start t_end contents) = Inr r"
  from detect_objects_Inr [OF this] obtain m l where
    "try_block lib m t_start t_end contents = Inr (r, l)"
    by blast
  from try_block_Inr [OF this] obtain ds where
    "r = \<lparr>detections = ds, count = int (length ds),
          processing_time_ms = (t_end - t_start) * 1000\<rparr>"
    by blast
  then show ?thesis
    by simp
qed

theorem detection_response_invariants_witness:
  "fst (detect_objects demo_library demo_process 2 2.25 demo_ppm) =
     Inr \<lparr>detections = demo_detections, count = 2, processing_time_ms = 250\<rparr> \<and>
   (2::real) \<le> 2.25 \<and>
   int (length demo_detections) = 2 \<and>
   (0::real) \<le> 250"
proof -
  have run: "fst (detect_objects demo_library demo_process 2 2.25 demo_ppm) =
     Inr \<lparr>detections = demo_detections, count = 2, processing_time_ms = 250\<rparr>"
    by (simp add: demo_detect)
  from detection_response_invariants [OF run] run show ?thesis
    by simp
qed

theorem negative_processing_time:
  "fst (detect_objects demo_library demo_process 10 5 demo_ppm) =
     Inr \<lparr>detections = demo_detections, count = 2, processing_time_ms = - 5000\<rparr>"
  by (simp add: demo_detect)

text \<open>
  Claim C9. In a successful response the detections correspond one to one, in order, to
  the retained raw detections, which are the raw detections of the model's results in
  the order the model gave them with the others left out: a subsequence of the raw
  detections, never reordered.
\<close>

theorem detections_preserve_order:
  "model p = Some m \<Longrightarrow> imdecode lib contents = Inr (Some img) \<Longrightarrow>
   predict m img = Inr res \<Longrightarrow>
   fst (detect_objects lib p t_start t_end contents) = Inr r \<Longrightarrow>
     list_all2 (represents m) (detections r)
       (filter (retained lib m) (concat (map boxes res))) \<and>
     subseq (filter (retained lib m) (concat (map boxes res))) (concat (map boxes res))"
proof -
  assume m: "model p = Some m" and img: "imdecode lib contents = Inr (Some img)"
    and res: "predict m img = Inr res"
    and ok: "fst (detect_objects lib p t_start t_end contents) = Inr r"
  from detect_objects_Inr [OF ok] m obtain l where
    "try_block lib m t_start t_end contents = Inr (r, l)"
    by auto
  from try_block_Inr [OF this] img res obtain ds where
    loop: "results_loop lib m res [] = Inr ds" and r: "detections r = ds"
    by auto
  from results_loop_Inr [OF loop] r show ?thesis
    by simp
qed

theorem detections_preserve_order_witness:
  "model demo_process = Some demo_model \<and>
   imdecode demo_library demo_ppm = Inr (Some demo_image) \<and>
   predict demo_model demo_image = Inr demo_results \<and>
   fst (detect_objects demo_library demo_process 0 1 demo_ppm) =
     Inr \<lparr>detections = demo_detections, count = 2, processing_time_ms = 1000\<rparr> \<and>
   list_all2 (represents demo_model) demo_detections
     (filter (retained demo_library demo_model) (concat (map boxes demo_results))) \<and>
   subseq (filter (retained demo_library demo_model) (concat (map boxes demo_results)))
     (concat (map boxes demo_results))"
proof -
  have m: "model demo_process = Some demo_model"
    by (simp add: demo_process_def)
  have run: "fst (detect_objects demo_library demo_process 0 1 demo_ppm) =
     Inr \<lparr>detections = demo_detections, count = 2, processing_time_ms = 1000\<rparr>"
    by (simp add: demo_detect)
  from detections_preserve_order [OF m demo_decode demo_predict run] m demo_decode
    demo_predict [of demo_image] run
  show ?thesis
    by simp
qed

end
